theory Spec2Isabelle
  imports Main
begin

section \<open>Byte strings and the Go library functions the package calls\<close>

text \<open>
  A Go \<open>string\<close> and a \<open>[]byte\<close> are both sequences of bytes; both are modelled as
  \<^typ>\<open>string\<close> (a list of 8-bit characters). The newline byte is \<open>CHR 0x0A\<close>.
\<close>

abbreviation (input) NL :: char where
  "NL \<equiv> CHR 0x0A"

text \<open>
  \<open>bytes.Index(s, sep)\<close> and \<open>strings.Index\<close>: the index of the first instance of
  \<open>sep\<close> in \<open>s\<close>, or \<open>-1\<close> when there is none.
\<close>

fun bytes_Index :: "string \<Rightarrow> string \<Rightarrow> int" where
  "bytes_Index [] sep = (if sep = [] then 0 else - 1)"
| "bytes_Index (c # cs) sep =
     (if take (length sep) (c # cs) = sep then 0
      else (let i = bytes_Index cs sep in if i < 0 then - 1 else i + 1))"

text \<open>
  \<open>strings.Replace(s, old, new, -1)\<close>: every non-overlapping instance of \<open>old\<close>,
  scanning from the left, is replaced by \<open>new\<close>. The package only passes the
  non-empty tokens \<open>{.T}\<close> and \<open>{.J}\<close> as \<open>old\<close>; for an empty \<open>old\<close> Go inserts
  \<open>new\<close> before every UTF-8 sequence and at the end, which is written here for
  one-byte sequences.
\<close>

fun strings_Replace :: "string \<Rightarrow> string \<Rightarrow> string \<Rightarrow> string" where
  "strings_Replace [] old new = (if old = [] then new else [])"
| "strings_Replace (c # cs) old new =
     (if old = [] then new @ c # strings_Replace cs old new
      else if take (length old) (c # cs) = old
        then new @ strings_Replace (drop (length old - 1) cs) old new
      else c # strings_Replace cs old new)"


text \<open>
  \<open>bytes.SplitN(s, sep, 2)\<close> with a non-empty \<open>sep\<close>: \<open>[s]\<close> when \<open>sep\<close> does not
  occur, else the part before the first instance and the part after it.
\<close>

definition bytes_SplitN2 :: "string \<Rightarrow> string \<Rightarrow> string list" where
  "bytes_SplitN2 s sep =
     (let m = bytes_Index s sep in
      if m < 0 then [s]
      else [take (nat m) s, drop (nat m + length sep) s])"

text \<open>
  Indexing a slice: Go panics when the index is out of range. \<open>None\<close> is the panic.
\<close>

definition index :: "'a list \<Rightarrow> nat \<Rightarrow> 'a option" where
  "index xs i = (if i < length xs then Some (xs ! i) else None)"

text \<open>
  Slicing \<open>p[0:limit]\<close>: Go panics when \<open>limit\<close> is negative or beyond the capacity
  of \<open>p\<close>. The capacity is not visible in the value of a slice, so the model
  panics beyond the length. \<open>None\<close> is the panic.
\<close>

definition slice_to :: "string \<Rightarrow> int \<Rightarrow> string option" where
  "slice_to p limit =
     (if 0 \<le> limit \<and> limit \<le> int (length p) then Some (take (nat limit) p) else None)"










text \<open>
  Go's integer division truncates toward zero. Division by zero panics; the one
  division of the package is guarded by \<open>Validate\<close>.
\<close>

definition go_quo :: "int \<Rightarrow> int \<Rightarrow> int" where
  "go_quo a b = sgn a * sgn b * (\<bar>a\<bar> div \<bar>b\<bar>)"

section \<open>Spec and its validation\<close>

datatype error =
    ErrNoCommand
  | ErrNoTimeout
  | ErrNoParallel
  | ErrNoStdoutBytes
  | ErrNoStderrBytes
  | ErrNoJumpCommand
  | ErrNoJumpHosts
  | ErrUnexpectedOutput string
  | ErrCannotStat string

text \<open>
  \<open>Timeout\<close> is a \<open>time.Duration\<close> (nanoseconds); \<open>Parallel\<close>, \<open>StdoutBytes\<close> and
  \<open>StderrBytes\<close> are Go \<open>int\<close>s. The package compares them with zero, divides
  \<open>Parallel\<close> by a positive length and subtracts buffer lengths from the byte
  limits; none of this can overflow, so they are modelled as \<^typ>\<open>int\<close>.
\<close>

record Spec =
  Command :: string
  Args :: "string list"
  Timeout :: int
  Parallel :: int
  StdoutBytes :: int
  StderrBytes :: int
  FileOrigin :: string
  ServeAddress :: string

text \<open>The zero value of the struct, \<open>Spec{}\<close>.\<close>

definition Spec_zero :: Spec where
  "Spec_zero = \<lparr>Command = [], Args = [], Timeout = 0, Parallel = 0,
     StdoutBytes = 0, StderrBytes = 0, FileOrigin = [], ServeAddress = []\<rparr>"

definition Validate :: "'a Spec_scheme \<Rightarrow> error option" where
  "Validate s =
     (if Command s = [] then Some ErrNoCommand
      else if Timeout s \<le> 0 then Some ErrNoTimeout
      else if Parallel s \<le> 0 then Some ErrNoParallel
      else if StdoutBytes s \<le> 0 then Some ErrNoStdoutBytes
      else if StderrBytes s \<le> 0 then Some ErrNoStderrBytes
      else None)"

section \<open>The local executor: argv and bounded capture\<close>

text \<open>
  \<open>runCmd\<close>, the argv handed to \<open>exec.Command(cmd, args...)\<close>: the program name and
  the arguments, each after \<open>strings.Replace(_, "{.T}", target, -1)\<close>.
\<close>

definition runCmd_argv :: "'a Spec_scheme \<Rightarrow> string \<Rightarrow> string \<times> string list" where
  "runCmd_argv s target =
     (let cmd = strings_Replace (Command s) ''{.T}'' target;
          args = map (\<lambda>arg. strings_Replace arg ''{.T}'' target) (Args s)
      in (cmd, args))"

text \<open>
  \<open>lossyWriter\<close>: a limit and the \<open>bytes.Buffer\<close> it fills. \<open>bytes.Buffer.Write\<close>
  always returns a nil error, so the error of \<open>Write\<close> is always \<open>None\<close>; the outer
  \<open>option\<close> is \<open>None\<close> when the slice expression \<open>p[0:limit]\<close> panics.
\<close>

record lossyWriter =
  Limit :: int
  Buffer :: string

definition lossyWriter_Write ::
  "lossyWriter \<Rightarrow> string \<Rightarrow> ((int \<times> error option) \<times> lossyWriter) option" where
  "lossyWriter_Write w p =
     (let writeSize = int (length p);
          bufferSize = int (length (Buffer w))
      in if bufferSize \<ge> Limit w then Some ((writeSize, None), w)
         else
           (let limit = writeSize;
                nextBufferSize = bufferSize + writeSize;
                limit = (if nextBufferSize > Limit w then Limit w - bufferSize else limit)
            in case slice_to p limit of
                 None \<Rightarrow> None
               | Some q \<Rightarrow>
                   (let w1 = w\<lparr>Buffer := Buffer w @ q\<rparr>;
                        w2 = (if int (length (Buffer w1)) = Limit w
                              then w1\<lparr>Buffer := Buffer w1 @ ''[...]''\<rparr> else w1)
                    in Some ((writeSize, None), w2))))"

text \<open>
  The child's output reaches the sink as a sequence of \<open>Write\<close> calls (the copying
  loop of \<open>os/exec\<close>), which stops at the first error or short write.
\<close>

fun lossyWriter_writes :: "lossyWriter \<Rightarrow> string list \<Rightarrow> lossyWriter option" where
  "lossyWriter_writes w [] = Some w"
| "lossyWriter_writes w (p # ps) =
     (case lossyWriter_Write w p of
        None \<Rightarrow> None
      | Some ((n, err), w') \<Rightarrow>
          (if err \<noteq> None \<or> n \<noteq> int (length p) then Some w'
           else lossyWriter_writes w' ps))"

text \<open>
  \<open>runCmd\<close>, the captured output: two fresh buffers behind sinks of limits
  \<open>StdoutBytes\<close> and \<open>StderrBytes\<close>; \<open>Result.Stdout\<close> and \<open>Result.Stderr\<close> are the
  buffers' contents after the child's writes.
\<close>

definition runCmd_capture ::
  "'a Spec_scheme \<Rightarrow> string list \<Rightarrow> string list \<Rightarrow> (string \<times> string) option" where
  "runCmd_capture s outs errs =
     (case lossyWriter_writes \<lparr>Limit = StdoutBytes s, Buffer = []\<rparr> outs of
        None \<Rightarrow> None
      | Some wo \<Rightarrow>
          (case lossyWriter_writes \<lparr>Limit = StderrBytes s, Buffer = []\<rparr> errs of
             None \<Rightarrow> None
           | Some we \<Rightarrow> Some (Buffer wo, Buffer we)))"

section \<open>The line-synchronised writer\<close>

text \<open>
  A \<open>synchronizedWriter\<close> owns its buffer \<open>b\<close> and shares the underlying writer and
  the mutex with the other instances. The underlying writer is modelled as the test
  uses it: an in-memory buffer whose \<open>Write\<close> accepts everything, so \<open>io.Copy\<close>
  returns no error and leaves the source buffer empty. A call takes the bytes on the
  underlying writer and the instance's buffer and returns both, updated.
\<close>

definition synchronizedWriter_Write ::
  "string \<times> string \<Rightarrow> string \<Rightarrow> (int \<times> error option) \<times> (string \<times> string)" where
  "synchronizedWriter_Write st p =
     (case st of (writer, b) \<Rightarrow>
        (let idx = bytes_Index p [NL]
         in if idx = - 1 then ((int (length p), None), (writer, b @ p))
            else if idx = 0 then ((int (length p), None), (writer, b))
            else
              (let b1 = b @ take (nat idx) p;
                   writer1 = writer @ b1;
                   b2 = drop (nat idx) p
               in ((int (length p), None), (writer1, b2)))))"

definition synchronizedWriter_Flush ::
  "string \<times> string \<Rightarrow> error option \<times> (string \<times> string)" where
  "synchronizedWriter_Flush st = (case st of (writer, b) \<Rightarrow> (None, (writer @ b, [])))"

text \<open>
  Several instances on one underlying writer: the store holds the shared writer and
  one buffer per instance. The shared writer is only touched inside the mutex and each
  buffer only by its own instance, so a run is a sequence of calls.
\<close>

record sinks =
  underlying :: string
  buffers :: "nat \<Rightarrow> string"

datatype call = Write nat string | Flush nat

fun step :: "sinks \<Rightarrow> call \<Rightarrow> sinks" where
  "step \<sigma> (Write i p) =
     (case synchronizedWriter_Write (underlying \<sigma>, buffers \<sigma> i) p of
        (_, (writer, b)) \<Rightarrow> \<lparr>underlying = writer, buffers = (buffers \<sigma>)(i := b)\<rparr>)"
| "step \<sigma> (Flush i) =
     (case synchronizedWriter_Flush (underlying \<sigma>, buffers \<sigma> i) of
        (_, (writer, b)) \<Rightarrow> \<lparr>underlying = writer, buffers = (buffers \<sigma>)(i := b)\<rparr>)"

definition run :: "call list \<Rightarrow> sinks" where
  "run cs = foldl step \<lparr>underlying = [], buffers = (\<lambda>_. [])\<rparr> cs"

text \<open>
  The behaviour of \<open>Write\<close> in the words of the specification: without a newline
  the input is buffered; otherwise the bytes before the first newline join the
  buffer, the buffer is drained to the underlying writer, and the bytes after the
  newline are retained.
\<close>

definition spec_synchronizedWriter_Write ::
  "string \<times> string \<Rightarrow> string \<Rightarrow> string \<times> string" where
  "spec_synchronizedWriter_Write st p =
     (case st of (writer, b) \<Rightarrow>
        (if NL \<notin> set p then (writer, b @ p)
         else (writer @ b @ takeWhile (\<lambda>c. c \<noteq> NL) p,
               tl (dropWhile (\<lambda>c. c \<noteq> NL) p))))"

section \<open>The auth agent's handshake\<close>

text \<open>
  \<open>sshAgentStdout\<close>: \<open>authsock\<close> is the channel (the values sent so far, oldest
  first), \<open>isdone\<close> the field \<open>done\<close>, \<open>agent_b\<close> the buffer \<open>b\<close>. \<open>os.Stat\<close> is the
  parameter \<open>stat\<close>: whether the path names an existing file system entry. The outer
  \<open>option\<close> of \<open>Write\<close> is \<open>None\<close> when an index expression panics.
\<close>

record sshAgentStdout =
  authsock :: "string list"
  isdone :: bool
  agent_b :: string

definition sshAgentStdout_Write ::
  "(string \<Rightarrow> bool) \<Rightarrow> sshAgentStdout \<Rightarrow> string
    \<Rightarrow> ((int \<times> error option) \<times> sshAgentStdout) option" where
  "sshAgentStdout_Write stat s p =
     (if isdone s then Some ((int (length p), None), s)
      else
        (let idx = bytes_Index p [NL];
             n = int (length p);
             s1 = s\<lparr>agent_b := agent_b s @ p\<rparr>
         in if idx = - 1 then Some ((n, None), s1)
            else
              (case index (bytes_SplitN2 (agent_b s1) [NL]) 0 of
                 None \<Rightarrow> None
               | Some line1 \<Rightarrow>
                   (let parts = bytes_SplitN2 line1 ''=''
                    in case index parts 0 of
                         None \<Rightarrow> None
                       | Some parts0 \<Rightarrow>
                           (if length parts \<noteq> 2 \<and> parts0 \<noteq> ''SSH_AUTH_SOCK''
                            then Some ((0, Some (ErrUnexpectedOutput line1)), s1)
                            else
                              (case index parts 1 of
                                 None \<Rightarrow> None
                               | Some parts1 \<Rightarrow>
                                   (case index (bytes_SplitN2 parts1 '';'') 0 of
                                      None \<Rightarrow> None
                                    | Some sock \<Rightarrow>
                                        (if \<not> stat sock
                                         then Some ((0, Some (ErrCannotStat sock)), s1)
                                         else Some ((n, None),
                                                s1\<lparr>authsock := authsock s1 @ [sock],
                                                   isdone := True\<rparr>)))))))))"

section \<open>The fan-out coordinator\<close>

record JumpSpec = Spec +
  JumpHostsKeyFile :: string
  JumpCommand :: string
  JumpHosts :: "string list"

definition JumpSpec_Validate :: "'a JumpSpec_scheme \<Rightarrow> error option" where
  "JumpSpec_Validate s =
     (case Validate s of
        Some err \<Rightarrow> Some err
      | None \<Rightarrow>
          (if JumpCommand s = [] then Some ErrNoJumpCommand
           else if length (JumpHosts s) = 0 then Some ErrNoJumpHosts
           else None))"

text \<open>
  \<open>JumpExec\<close>, the parallelism handed to each jump host. It is computed after
  \<open>Validate\<close> has succeeded, so the divisor is positive.
\<close>

definition JumpExec_parallel :: "'a JumpSpec_scheme \<Rightarrow> int" where
  "JumpExec_parallel s =
     (let parallel = go_quo (Parallel s) (int (length (JumpHosts s)))
      in if parallel = 0 then 1 else parallel)"


text \<open>The JumpSpec of \<open>TestJumpExec\<close>.\<close>

definition test_JumpSpec :: JumpSpec where
  "test_JumpSpec =
     \<lparr>Command = ''echo'', Args = [''{.T}''], Timeout = 1000000000, Parallel = 1,
      StdoutBytes = 1024, StderrBytes = 1024, FileOrigin = [], ServeAddress = [],
      JumpHostsKeyFile = [], JumpCommand = ''echo {.J}'', JumpHosts = [''localhost'']\<rparr>"

section \<open>Auxiliary facts\<close>

lemma bytes_Index_ge: "- 1 \<le> bytes_Index s sep"
  by (induction s) (auto simp: Let_def)

lemma bytes_Index_neg: "bytes_Index s sep < 0 \<longleftrightarrow> bytes_Index s sep = - 1"
  using bytes_Index_ge [of s sep] by linarith

lemma strings_Replace_absent:
  "old \<noteq> [] \<Longrightarrow> bytes_Index s old = - 1 \<Longrightarrow> strings_Replace s old new = s"
proof (induction s)
  case Nil
  then show ?case by simp
next
  case (Cons c cs)
  from Cons.prems have nomatch: "take (length old) (c # cs) \<noteq> old"
    by (auto split: if_splits)
  with Cons.prems have "bytes_Index cs old < 0"
    by (auto simp: Let_def split: if_splits)
  then have "bytes_Index cs old = - 1"
    by (simp add: bytes_Index_neg)
  with Cons.IH Cons.prems(1) have "strings_Replace cs old new = cs" by simp
  with nomatch Cons.prems(1) show ?case by simp
qed


lemma lossyWriter_Write_eq:
  "lossyWriter_Write w p =
     Some ((int (length p), None),
       if Limit w \<le> int (length (Buffer w)) then w
       else if Limit w \<le> int (length (Buffer w)) + int (length p)
         then w\<lparr>Buffer := Buffer w @ take (nat (Limit w - int (length (Buffer w)))) p @ ''[...]''\<rparr>
       else w\<lparr>Buffer := Buffer w @ p\<rparr>)"
  by (auto simp: lossyWriter_Write_def slice_to_def Let_def)

lemma lossyWriter_writes_full:
  "Limit w \<le> int (length (Buffer w)) \<Longrightarrow> lossyWriter_writes w ps = Some w"
  by (induction ps) (simp_all add: lossyWriter_Write_eq)

lemma lossyWriter_writes_open:
  "int (length (Buffer w)) < Limit w \<Longrightarrow>
   lossyWriter_writes w ps =
     Some (if int (length (Buffer w)) + int (length (concat ps)) < Limit w
           then w\<lparr>Buffer := Buffer w @ concat ps\<rparr>
           else w\<lparr>Buffer := Buffer w @
                  take (nat (Limit w - int (length (Buffer w)))) (concat ps) @ ''[...]''\<rparr>)"
proof (induction ps arbitrary: w)
  case Nil
  then show ?case by simp
next
  case (Cons p ps)
  show ?case
  proof (cases "Limit w \<le> int (length (Buffer w)) + int (length p)")
    case True
    let ?w1 = "w\<lparr>Buffer := Buffer w @ take (nat (Limit w - int (length (Buffer w)))) p @ ''[...]''\<rparr>"
    have full: "Limit ?w1 \<le> int (length (Buffer ?w1))"
      using True Cons.prems by simp
    have k: "nat (Limit w - int (length (Buffer w))) \<le> length p"
      using True by linarith
    show ?thesis
      using True Cons.prems k lossyWriter_writes_full [OF full, of ps]
      by (simp add: lossyWriter_Write_eq)
  next
    case False
    let ?w1 = "w\<lparr>Buffer := Buffer w @ p\<rparr>"
    have op: "int (length (Buffer ?w1)) < Limit ?w1"
      using False by simp
    have k: "nat (Limit w - int (length (Buffer w))) - length p
             = nat (Limit w - (int (length (Buffer w)) + int (length p)))"
      by linarith
    have k2: "length p \<le> nat (Limit w - int (length (Buffer w)))"
      using False by linarith
    show ?thesis
      using False Cons.prems k k2 Cons.IH [OF op]
      by (simp add: lossyWriter_Write_eq add.assoc)
  qed
qed

lemma go_quo_pos: "0 < a \<Longrightarrow> 0 < b \<Longrightarrow> go_quo a b = a div b"
  by (simp add: go_quo_def)

section \<open>The claims\<close>

text \<open>
  C1 (as amended). \<open>runCmd\<close> applies the substitution of \<open>{.T}\<close> by the target to
  the command name as well as to every element of \<open>Args\<close>, as the comment of \<open>Exec\<close>
  announces; a command name in which \<open>{.T}\<close> does not occur, such as \<open>echo\<close>, is
  executed verbatim.
\<close>

theorem runCmd_argv_templates_command:
  "runCmd_argv s target =
     (strings_Replace (Command s) ''{.T}'' target,
      map (\<lambda>arg. strings_Replace arg ''{.T}'' target) (Args s))
   \<and> (bytes_Index (Command s) ''{.T}'' = - 1 \<longrightarrow> fst (runCmd_argv s target) = Command s)"
  by (simp add: runCmd_argv_def strings_Replace_absent)

text \<open>
  C1, an instance: the Spec of \<open>TestExec\<close>, whose command \<open>echo\<close> holds no token,
  with the target \<open>hello world\<close>.
\<close>

theorem runCmd_argv_templates_command_witness:
  "bytes_Index (Command (Spec_zero\<lparr>Command := ''echo'', Args := [''{.T}'']\<rparr>)) ''{.T}'' = - 1
   \<and> runCmd_argv (Spec_zero\<lparr>Command := ''echo'', Args := [''{.T}'']\<rparr>) ''hello world''
       = (''echo'', [''hello world''])"
  using runCmd_argv_templates_command
    [of "Spec_zero\<lparr>Command := ''echo'', Args := [''{.T}'']\<rparr>" "''hello world''"]
  by (simp add: Spec_zero_def)

text \<open>
  C1 as stated fails: for the valid Spec whose command is the token \<open>{.T}\<close> itself
  and the target \<open>ls\<close>, the program that is run is \<open>ls\<close>, not the command as
  written.
\<close>

theorem runCmd_command_verbatim_counterexample:
  "Validate (Spec_zero\<lparr>Command := ''{.T}'', Timeout := 1, Parallel := 1,
       StdoutBytes := 1, StderrBytes := 1\<rparr>) = None
   \<and> fst (runCmd_argv (Spec_zero\<lparr>Command := ''{.T}'', Timeout := 1, Parallel := 1,
       StdoutBytes := 1, StderrBytes := 1\<rparr>) ''ls'') = ''ls''
   \<and> fst (runCmd_argv (Spec_zero\<lparr>Command := ''{.T}'', Timeout := 1, Parallel := 1,
       StdoutBytes := 1, StderrBytes := 1\<rparr>) ''ls'')
       \<noteq> Command (Spec_zero\<lparr>Command := ''{.T}'', Timeout := 1, Parallel := 1,
       StdoutBytes := 1, StderrBytes := 1\<rparr>)"
  by (simp add: runCmd_argv_def Validate_def Spec_zero_def)

text \<open>
  C2. With positive \<open>StdoutBytes\<close> and \<open>StderrBytes\<close>, whatever sequences of
  writes the child produces, \<open>runCmd\<close> captures both streams without a panic, the
  captured stdout is at most \<open>StdoutBytes + 5\<close> bytes long and the captured stderr at
  most \<open>StderrBytes + 5\<close>; and after any sequence of writes to a fresh sink its buffer
  is at most \<open>Limit + 5\<close> bytes long.
\<close>

theorem capture_bounded:
  assumes "0 < StdoutBytes s" and "0 < StderrBytes s"
  shows "(\<exists>so se. runCmd_capture s outs errs = Some (so, se)
            \<and> int (length so) \<le> StdoutBytes s + 5
            \<and> int (length se) \<le> StderrBytes s + 5)
         \<and> (\<exists>w'. lossyWriter_writes \<lparr>Limit = StdoutBytes s, Buffer = []\<rparr> ps = Some w'
                \<and> int (length (Buffer w')) \<le> Limit w' + 5)"
proof -
  have bound: "\<exists>w'. lossyWriter_writes \<lparr>Limit = L, Buffer = []\<rparr> qs = Some w'
                 \<and> Limit w' = L \<and> int (length (Buffer w')) \<le> L + 5" if "0 < L" for L qs
    using that lossyWriter_writes_open [of "\<lparr>Limit = L, Buffer = []\<rparr>" qs]
    by (auto split: if_splits)
  from bound [OF assms(1), of outs] obtain wo where
    wo: "lossyWriter_writes \<lparr>Limit = StdoutBytes s, Buffer = []\<rparr> outs = Some wo"
        "int (length (Buffer wo)) \<le> StdoutBytes s + 5"
    by blast
  from bound [OF assms(2), of errs] obtain we where
    we: "lossyWriter_writes \<lparr>Limit = StderrBytes s, Buffer = []\<rparr> errs = Some we"
        "int (length (Buffer we)) \<le> StderrBytes s + 5"
    by blast
  from wo we have "\<exists>so se. runCmd_capture s outs errs = Some (so, se)
            \<and> int (length so) \<le> StdoutBytes s + 5
            \<and> int (length se) \<le> StderrBytes s + 5"
    by (simp add: runCmd_capture_def)
  moreover from bound [OF assms(1), of ps]
  have "\<exists>w'. lossyWriter_writes \<lparr>Limit = StdoutBytes s, Buffer = []\<rparr> ps = Some w'
                \<and> int (length (Buffer w')) \<le> Limit w' + 5"
    by auto
  ultimately show ?thesis by blast
qed

text \<open>
  C2, an instance: limits 5 and 3, stdout \<open>hello world\<close> in one write, stderr in
  two writes.
\<close>

theorem capture_bounded_witness:
  "0 < StdoutBytes (Spec_zero\<lparr>StdoutBytes := 5, StderrBytes := 3\<rparr>)
   \<and> 0 < StderrBytes (Spec_zero\<lparr>StdoutBytes := 5, StderrBytes := 3\<rparr>)
   \<and> (\<exists>so se. runCmd_capture (Spec_zero\<lparr>StdoutBytes := 5, StderrBytes := 3\<rparr>)
                  [''hello world''] [''a'', ''b''] = Some (so, se)
          \<and> int (length so) \<le> 5 + 5 \<and> int (length se) \<le> 3 + 5)"
  using capture_bounded
    [of "Spec_zero\<lparr>StdoutBytes := 5, StderrBytes := 3\<rparr>" "[''hello world'']"
        "[''a'', ''b'']" "[]"]
  by (simp add: Spec_zero_def)

text \<open>
  C3 fails on the code. The guard of \<open>sshAgentStdout.Write\<close> joins its two tests with
  a conjunction, so a first line that splits on \<open>=\<close> into two parts passes it whatever
  its key is: for the line \<open>FOO=/tmp\<close>, with \<open>/tmp\<close> an existing path, the parser
  reports no error, sends \<open>/tmp\<close> on the channel as the agent's socket and marks the
  handshake done.
\<close>

theorem sshAgentStdout_accepts_other_key:
  "sshAgentStdout_Write (\<lambda>path. path = ''/tmp'')
     \<lparr>authsock = [], isdone = False, agent_b = []\<rparr> (''FOO=/tmp'' @ [NL])
   = Some ((9, None),
       \<lparr>authsock = [''/tmp''], isdone = True, agent_b = ''FOO=/tmp'' @ [NL]\<rparr>)"
  by (simp add: sshAgentStdout_Write_def bytes_SplitN2_def index_def Let_def)

text \<open>
  C4 fails on the code. \<open>Write\<close> drains the bytes before the newline and keeps the
  newline itself at the head of its buffer, so a line reaches the underlying writer
  without its terminator. Two sinks on one underlying writer, each writing one complete
  line: after both writes the writer holds \<open>ab\<close>, and after both are flushed it holds
  \<open>ab\<close> followed by two newlines; the byte of the second sink stands between the first
  sink's line and its newline.
\<close>

theorem synchronizedWriter_lines_interleave:
  "underlying (run [Write 0 (''a'' @ [NL]), Write 1 (''b'' @ [NL])]) = ''ab''
   \<and> underlying (run [Write 0 (''a'' @ [NL]), Write 1 (''b'' @ [NL]), Flush 0, Flush 1])
       = ''ab'' @ [NL, NL]"
  by (simp add: run_def synchronizedWriter_Write_def synchronizedWriter_Flush_def Let_def)

text \<open>
  C5 fails on the code. \<open>synchronizedWriter.Write\<close> has a branch of its own for an
  input that begins with a newline: it reports the full length and no error, and
  neither buffers nor drains anything. With \<open>xy\<close> in the buffer and the input a newline
  followed by \<open>abc\<close>, the buffer and the underlying writer stay as they were, where the
  stated behaviour drains \<open>xy\<close> and retains \<open>abc\<close>; and the writes \<open>abc\<close>, then a
  newline, \<open>def\<close> and a newline, then a flush leave only \<open>abc\<close> on the underlying
  writer: the second write is lost. The scenario of the test, which has no such write,
  comes out as stated.
\<close>

theorem synchronizedWriter_drops_leading_newline_write:
  "synchronizedWriter_Write ([], ''xy'') (NL # ''abc'') = ((4, None), ([], ''xy''))
   \<and> spec_synchronizedWriter_Write ([], ''xy'') (NL # ''abc'') = (''xy'', ''abc'')
   \<and> underlying (run [Write 0 ''abc'', Write 0 (NL # ''def'' @ [NL]), Flush 0]) = ''abc''
   \<and> underlying (run [Write 0 ''hello'', Write 0 (''world'' @ [NL]), Write 0 ''foobar'',
         Flush 0]) = ''helloworld'' @ [NL] @ ''foobar''"
  by (simp add: run_def synchronizedWriter_Write_def synchronizedWriter_Flush_def
      spec_synchronizedWriter_Write_def Let_def)

text \<open>
  C6. The bounded sink's \<open>Write\<close> returns the full length of its input and no error,
  for every state of the sink and every input, and never panics; a write that
  straddles the limit stores exactly the prefix that fills the buffer to \<open>Limit\<close>
  bytes, drops the rest and appends the marker; and after any sequence of writes to a
  fresh sink with a positive limit the buffer holds the written bytes when they are
  fewer than \<open>Limit\<close>, and otherwise their first \<open>Limit\<close> bytes followed by one
  marker, which is not counted against the limit.
\<close>

theorem lossyWriter_Write_policy:
  "(\<exists>w'. lossyWriter_Write w p = Some ((int (length p), None), w'))
   \<and> (int (length (Buffer w)) < Limit w \<and> Limit w < int (length (Buffer w)) + int (length p)
        \<longrightarrow> lossyWriter_Write w p =
              Some ((int (length p), None),
                    w\<lparr>Buffer := Buffer w
                        @ take (nat (Limit w - int (length (Buffer w)))) p @ ''[...]''\<rparr>))
   \<and> (0 < L \<longrightarrow> lossyWriter_writes \<lparr>Limit = L, Buffer = []\<rparr> ps =
              Some \<lparr>Limit = L,
                    Buffer = (if int (length (concat ps)) < L then concat ps
                              else take (nat L) (concat ps) @ ''[...]'')\<rparr>)"
proof (intro conjI impI)
  show "\<exists>w'. lossyWriter_Write w p = Some ((int (length p), None), w')"
    by (simp add: lossyWriter_Write_eq)
next
  assume "int (length (Buffer w)) < Limit w
          \<and> Limit w < int (length (Buffer w)) + int (length p)"
  then show "lossyWriter_Write w p =
      Some ((int (length p), None),
            w\<lparr>Buffer := Buffer w
                @ take (nat (Limit w - int (length (Buffer w)))) p @ ''[...]''\<rparr>)"
    by (simp add: lossyWriter_Write_eq)
next
  assume "0 < L"
  then show "lossyWriter_writes \<lparr>Limit = L, Buffer = []\<rparr> ps =
      Some \<lparr>Limit = L,
            Buffer = (if int (length (concat ps)) < L then concat ps
                      else take (nat L) (concat ps) @ ''[...]'')\<rparr>"
    using lossyWriter_writes_open [of "\<lparr>Limit = L, Buffer = []\<rparr>" ps]
    by simp
qed

text \<open>
  C6, an instance: limit 5, a write of \<open>lo world\<close> onto \<open>hel\<close>, and the writes \<open>he\<close>,
  \<open>llo\<close>, \<open> wor\<close>, \<open>ld\<close> to a fresh sink.
\<close>

theorem lossyWriter_Write_policy_witness:
  "int (length (Buffer \<lparr>Limit = 5, Buffer = ''hel''\<rparr>)) < Limit \<lparr>Limit = 5, Buffer = ''hel''\<rparr>
   \<and> Limit \<lparr>Limit = 5, Buffer = ''hel''\<rparr>
       < int (length (Buffer \<lparr>Limit = 5, Buffer = ''hel''\<rparr>)) + int (length ''lo world'')
   \<and> lossyWriter_Write \<lparr>Limit = 5, Buffer = ''hel''\<rparr> ''lo world''
       = Some ((8, None), \<lparr>Limit = 5, Buffer = ''hello[...]''\<rparr>)
   \<and> (0::int) < 5
   \<and> lossyWriter_writes \<lparr>Limit = 5, Buffer = []\<rparr> [''he'', ''llo'', '' wor'', ''ld'']
       = Some \<lparr>Limit = 5, Buffer = ''hello[...]''\<rparr>"
  using lossyWriter_Write_policy
    [of "\<lparr>Limit = 5, Buffer = ''hel''\<rparr>" "''lo world''" 5 "[''he'', ''llo'', '' wor'', ''ld'']"]
  by simp

text \<open>
  C7. For a positive \<open>Parallel\<close> and a non-empty list of jump hosts, the parallelism
  handed to each jump host is \<open>max 1 (Parallel div |JumpHosts|)\<close>; summed over the jump
  hosts it is at most \<open>Parallel\<close> when \<open>Parallel\<close> is at least the number of jump
  hosts, and equal to the number of jump hosts otherwise.
\<close>

theorem JumpExec_parallel_degraded:
  assumes "0 < Parallel s" and "JumpHosts s \<noteq> []"
  shows "JumpExec_parallel s = max 1 (Parallel s div int (length (JumpHosts s)))
         \<and> (int (length (JumpHosts s)) \<le> Parallel s \<longrightarrow>
              (\<Sum>host\<leftarrow>JumpHosts s. JumpExec_parallel s) \<le> Parallel s)
         \<and> (Parallel s < int (length (JumpHosts s)) \<longrightarrow>
              (\<Sum>host\<leftarrow>JumpHosts s. JumpExec_parallel s) = int (length (JumpHosts s)))"
proof -
  let ?n = "int (length (JumpHosts s))"
  let ?P = "Parallel s"
  have n: "0 < ?n" using assms(2) by simp
  have q: "go_quo ?P ?n = ?P div ?n"
    using assms(1) n by (rule go_quo_pos)
  have nonneg: "0 \<le> ?P div ?n"
    using assms(1) n by (simp add: pos_imp_zdiv_nonneg_iff)
  have p: "JumpExec_parallel s = max 1 (?P div ?n)"
    using nonneg by (auto simp: JumpExec_parallel_def q Let_def)
  have total: "(\<Sum>host\<leftarrow>JumpHosts s. JumpExec_parallel s) = ?n * JumpExec_parallel s"
    by (simp add: sum_list_triv)
  have le: "?n * max 1 (?P div ?n) \<le> ?P" if "?n \<le> ?P"
  proof -
    have "1 \<le> ?P div ?n"
      using that n pos_imp_zdiv_pos_iff [of ?n ?P] by linarith
    then have "max 1 (?P div ?n) = ?P div ?n" by simp
    moreover have "?n * (?P div ?n) \<le> ?P"
      using n mult_div_mod_eq [of ?n ?P] pos_mod_sign [of ?n ?P] by linarith
    ultimately show ?thesis by simp
  qed
  have eq: "?n * max 1 (?P div ?n) = ?n" if "?P < ?n"
  proof -
    have "?P div ?n = 0"
      using that assms(1) by (simp add: div_pos_pos_trivial)
    then show ?thesis by simp
  qed
  from p total le eq show ?thesis by simp
qed

text \<open>
  C7, two instances with three jump hosts: \<open>Parallel = 7\<close> gives 2 each, 6 in all;
  \<open>Parallel = 2\<close> gives 1 each, 3 in all.
\<close>

theorem JumpExec_parallel_degraded_witness:
  "0 < Parallel (test_JumpSpec\<lparr>Parallel := 7, JumpHosts := [''a'', ''b'', ''c'']\<rparr>)
   \<and> JumpHosts (test_JumpSpec\<lparr>Parallel := 7, JumpHosts := [''a'', ''b'', ''c'']\<rparr>) \<noteq> []
   \<and> JumpExec_parallel (test_JumpSpec\<lparr>Parallel := 7, JumpHosts := [''a'', ''b'', ''c'']\<rparr>) = 2
   \<and> (\<Sum>host\<leftarrow>JumpHosts (test_JumpSpec\<lparr>Parallel := 7, JumpHosts := [''a'', ''b'', ''c'']\<rparr>).
         JumpExec_parallel (test_JumpSpec\<lparr>Parallel := 7, JumpHosts := [''a'', ''b'', ''c'']\<rparr>))
       \<le> 7
   \<and> 0 < Parallel (test_JumpSpec\<lparr>Parallel := 2, JumpHosts := [''a'', ''b'', ''c'']\<rparr>)
   \<and> JumpExec_parallel (test_JumpSpec\<lparr>Parallel := 2, JumpHosts := [''a'', ''b'', ''c'']\<rparr>) = 1
   \<and> (\<Sum>host\<leftarrow>JumpHosts (test_JumpSpec\<lparr>Parallel := 2, JumpHosts := [''a'', ''b'', ''c'']\<rparr>).
         JumpExec_parallel (test_JumpSpec\<lparr>Parallel := 2, JumpHosts := [''a'', ''b'', ''c'']\<rparr>))
       = 3"
  using JumpExec_parallel_degraded
      [of "test_JumpSpec\<lparr>Parallel := 7, JumpHosts := [''a'', ''b'', ''c'']\<rparr>"]
    JumpExec_parallel_degraded
      [of "test_JumpSpec\<lparr>Parallel := 2, JumpHosts := [''a'', ''b'', ''c'']\<rparr>"]
  by (simp add: test_JumpSpec_def)


text \<open>
  C9. \<open>Spec.Validate\<close> checks Command, Timeout, Parallel, StdoutBytes, StderrBytes in
  this order and returns the error of the first violated constraint: each error is
  returned exactly when its own constraint fails and all earlier ones hold, the
  cascade of the test (\<open>{}\<close>, \<open>{Command:"a"}\<close>, \<open>{Command:"a", Timeout:1}\<close>, ...)
  gives ErrNoCommand, ErrNoTimeout, ErrNoParallel, ErrNoStdoutBytes,
  ErrNoStderrBytes, nil, and the result is nil exactly when Command is non-empty and
  the four numbers are strictly positive.
\<close>

theorem Validate_cascade:
  "(Validate s = Some ErrNoCommand) = (Command s = [])
   \<and> (Validate s = Some ErrNoTimeout) = (Command s \<noteq> [] \<and> Timeout s \<le> 0)
   \<and> (Validate s = Some ErrNoParallel) =
       (Command s \<noteq> [] \<and> 0 < Timeout s \<and> Parallel s \<le> 0)
   \<and> (Validate s = Some ErrNoStdoutBytes) =
       (Command s \<noteq> [] \<and> 0 < Timeout s \<and> 0 < Parallel s \<and> StdoutBytes s \<le> 0)
   \<and> (Validate s = Some ErrNoStderrBytes) =
       (Command s \<noteq> [] \<and> 0 < Timeout s \<and> 0 < Parallel s \<and> 0 < StdoutBytes s
        \<and> StderrBytes s \<le> 0)
   \<and> (Validate s = None) =
       (Command s \<noteq> [] \<and> 0 < Timeout s \<and> 0 < Parallel s \<and> 0 < StdoutBytes s
        \<and> 0 < StderrBytes s)
   \<and> Validate Spec_zero = Some ErrNoCommand
   \<and> Validate (Spec_zero\<lparr>Command := ''a''\<rparr>) = Some ErrNoTimeout
   \<and> Validate (Spec_zero\<lparr>Command := ''a'', Timeout := 1\<rparr>) = Some ErrNoParallel
   \<and> Validate (Spec_zero\<lparr>Command := ''a'', Timeout := 1, Parallel := 1\<rparr>)
       = Some ErrNoStdoutBytes
   \<and> Validate (Spec_zero\<lparr>Command := ''a'', Timeout := 1, Parallel := 1,
         StdoutBytes := 1\<rparr>) = Some ErrNoStderrBytes
   \<and> Validate (Spec_zero\<lparr>Command := ''a'', Timeout := 1, Parallel := 1,
         StdoutBytes := 1, StderrBytes := 1\<rparr>) = None"
  by (simp add: Validate_def Spec_zero_def)

text \<open>
  C10. For the first line \<open>SSH_AUTH_SOCK\<close>, which holds no \<open>=\<close>, the split gives one
  part, equal to the expected key, so the guard (a conjunction of "not two parts" and
  "first part is not the key") does not fire; the access to the second part is out of
  range, and \<open>Write\<close> panics instead of returning an error, whatever the file system
  holds.
\<close>

theorem sshAgentStdout_panics_without_equals:
  "bytes_Index ''SSH_AUTH_SOCK'' ''='' = - 1
   \<and> bytes_SplitN2 ''SSH_AUTH_SOCK'' ''='' = [''SSH_AUTH_SOCK'']
   \<and> \<not> (length (bytes_SplitN2 ''SSH_AUTH_SOCK'' ''='') \<noteq> 2
         \<and> bytes_SplitN2 ''SSH_AUTH_SOCK'' ''='' ! 0 \<noteq> ''SSH_AUTH_SOCK'')
   \<and> index (bytes_SplitN2 ''SSH_AUTH_SOCK'' ''='') 1 = None
   \<and> sshAgentStdout_Write stat \<lparr>authsock = [], isdone = False, agent_b = []\<rparr>
        (''SSH_AUTH_SOCK'' @ [NL]) = None"
  by (simp add: sshAgentStdout_Write_def bytes_SplitN2_def index_def Let_def)

end
